theory Spec2Isabelle
  imports Main "HOL-Library.Sublist"
begin

section \<open>Python text\<close>

text \<open>
  A Python \<open>str\<close> is modelled as a \<open>string\<close> holding its UTF-8 bytes, so the em dash
  and the en dash in the literals of \<open>app.py\<close> are three bytes each.
\<close>

text \<open>\<open>startswith s p\<close> is \<open>s.startswith(p)\<close>; \<open>contains sub s\<close> is \<open>sub in s\<close>.\<close>

fun startswith :: "string \<Rightarrow> string \<Rightarrow> bool" where
  "startswith s [] = True"
| "startswith [] (p # ps) = False"
| "startswith (c # cs) (p # ps) = (c = p \<and> startswith cs ps)"

fun contains :: "string \<Rightarrow> string \<Rightarrow> bool" where
  "contains sub [] = (sub = [])"
| "contains sub (c # cs) = (startswith (c # cs) sub \<or> contains sub cs)"

text \<open>
  The white space that \<open>str.strip\<close> removes: the 29 code points for which \<open>str.isspace\<close>
  holds, each as its UTF-8 bytes. They are U+0009 to U+000D, U+001C to U+001F, U+0020,
  U+0085, U+00A0, U+1680, U+2000 to U+200A, U+2028, U+2029, U+202F, U+205F and U+3000.
\<close>

definition whitespace :: "string list" where
  "whitespace =
     [[CHR 0x09], [CHR 0x0A], [CHR 0x0B], [CHR 0x0C], [CHR 0x0D],
      [CHR 0x1C], [CHR 0x1D], [CHR 0x1E], [CHR 0x1F], [CHR 0x20],
      [CHR 0xC2, CHR 0x85], [CHR 0xC2, CHR 0xA0],
      [CHR 0xE1, CHR 0x9A, CHR 0x80],
      [CHR 0xE2, CHR 0x80, CHR 0x80], [CHR 0xE2, CHR 0x80, CHR 0x81],
      [CHR 0xE2, CHR 0x80, CHR 0x82], [CHR 0xE2, CHR 0x80, CHR 0x83],
      [CHR 0xE2, CHR 0x80, CHR 0x84], [CHR 0xE2, CHR 0x80, CHR 0x85],
      [CHR 0xE2, CHR 0x80, CHR 0x86], [CHR 0xE2, CHR 0x80, CHR 0x87],
      [CHR 0xE2, CHR 0x80, CHR 0x88], [CHR 0xE2, CHR 0x80, CHR 0x89],
      [CHR 0xE2, CHR 0x80, CHR 0x8A],
      [CHR 0xE2, CHR 0x80, CHR 0xA8], [CHR 0xE2, CHR 0x80, CHR 0xA9],
      [CHR 0xE2, CHR 0x80, CHR 0xAF], [CHR 0xE2, CHR 0x81, CHR 0x9F],
      [CHR 0xE3, CHR 0x80, CHR 0x80]]"

text \<open>
  \<open>drop_spaces ws s\<close> removes from the front of \<open>s\<close> every leading occurrence of a byte
  sequence of \<open>ws\<close>. \<open>strip s\<close> is \<open>s.strip()\<close>: the white space goes from the front, then
  from the end, where the bytes of each code point stand in reverse.
\<close>

fun drop_spaces :: "string list \<Rightarrow> string \<Rightarrow> string" where
  "drop_spaces ws [] = []"
| "drop_spaces ws (c # cs) =
     (case filter (startswith (c # cs)) ws of
        [] \<Rightarrow> c # cs
      | w # _ \<Rightarrow> drop_spaces ws (drop (length w - 1) cs))"

definition strip :: "string \<Rightarrow> string" where
  "strip s = rev (drop_spaces (map rev whitespace) (rev (drop_spaces whitespace s)))"

text \<open>
  \<open>lower unicode_lower s\<close> is \<open>s.lower()\<close>. On a string of ASCII characters \<open>str.lower\<close>
  maps \<open>A\<close>..\<open>Z\<close> to \<open>a\<close>..\<open>z\<close> and leaves the rest. On a string with a code point beyond
  ASCII it follows the case mapping of the Unicode Character Database, which is no part
  of this program: there \<open>str.lower\<close> is the parameter \<open>unicode_lower\<close> of the model.
\<close>

definition lower_char :: "char \<Rightarrow> char" where
  "lower_char c = (let n = (of_char c :: nat) in if 65 \<le> n \<and> n \<le> 90 then char_of (n + 32) else c)"

fun is_ascii :: "string \<Rightarrow> bool" where
  "is_ascii [] = True"
| "is_ascii (c # cs) = ((of_char c :: nat) < 128 \<and> is_ascii cs)"

definition lower :: "(string \<Rightarrow> string) \<Rightarrow> string \<Rightarrow> string" where
  "lower unicode_lower s = (if is_ascii s then map lower_char s else unicode_lower s)"

text \<open>\<open>join sep xs\<close> is \<open>sep.join(xs)\<close>.\<close>

fun join :: "string \<Rightarrow> string list \<Rightarrow> string" where
  "join sep [] = []"
| "join sep [x] = x"
| "join sep (x # y # ys) = x @ sep @ join sep (y # ys)"

definition em_dash :: string where
  "em_dash = [CHR 0xE2, CHR 0x80, CHR 0x94]"

definition en_dash :: string where
  "en_dash = [CHR 0xE2, CHR 0x80, CHR 0x93]"

section \<open>StudyMotivationAgent.analyze_reason_local\<close>

text \<open>The nine sentences of \<open>analyze_reason_local\<close>, in the order of the source.\<close>

definition challenge_fragment :: string where
  "challenge_fragment =
     ''The topic is challenging '' @ em_dash @ '' it likely needs smaller steps and more practice.''"

definition manageable_fragment :: string where
  "manageable_fragment =
     ''Content is manageable but may need better structure or focused sessions.''"

definition easy_fragment :: string where
  "easy_fragment =
     ''Material seems easy '' @ em_dash @ '' the issue may be motivation or routine.''"

definition rest_fragment :: string where
  "rest_fragment =
     ''Current energy/mood suggests short sessions and self-care first (rest, hydration).''"

definition formula_fragment :: string where
  "formula_fragment = ''Formulas often need active practice and spaced repetition.''"

definition concept_fragment :: string where
  "concept_fragment =
     ''Try visual examples and small analogies to ground abstract concepts.''"

definition practice_fragment :: string where
  "practice_fragment =
     ''Practice-based learning will help '' @ em_dash @ '' start with guided examples.''"

definition micro_fragment :: string where
  "micro_fragment =
     ''You have limited time '' @ em_dash @ '' micro-tasks (10'' @ en_dash @ ''20 min) are best.''"

definition deep_fragment :: string where
  "deep_fragment =
     ''You have long time blocks '' @ em_dash @ '' structure them into deep-work sessions.''"

text \<open>
  \<open>parts\<close> is a local list that the four commented blocks of the function extend in
  turn with \<open>parts.append\<close>. Each block is a function from the list before it to the
  list after it, named after its comment in the source; \<open>append\<close> on the list is \<open>@\<close>.
\<close>

definition difficulty_heuristics :: "string \<Rightarrow> string list \<Rightarrow> string list" where
  "difficulty_heuristics diff parts =
     (if diff \<in> set [''very hard'', ''hard'', ''difficult''] then parts @ [challenge_fragment]
      else if diff \<in> set [''medium'', ''okay''] then parts @ [manageable_fragment]
      else parts @ [easy_fragment])"

definition mood_heuristics :: "string \<Rightarrow> string list \<Rightarrow> string list" where
  "mood_heuristics mood_l parts =
     (if mood_l \<in> set [''tired'', ''stressed'', ''low motivation'', ''low'']
      then parts @ [rest_fragment] else parts)"

definition reason_hint :: "string \<Rightarrow> string list \<Rightarrow> string list" where
  "reason_hint reason_l parts =
     (if reason_l \<noteq> [] then
        (let parts = (if contains ''formul'' reason_l \<or> contains ''formula'' reason_l
                      then parts @ [formula_fragment] else parts);
             parts = (if contains ''concept'' reason_l \<or> contains ''abstract'' reason_l
                      then parts @ [concept_fragment] else parts);
             parts = (if contains ''practice'' reason_l \<or> contains ''problems'' reason_l
                      then parts @ [practice_fragment] else parts)
         in parts)
      else parts)"

definition time_heuristics :: "int \<Rightarrow> string list \<Rightarrow> string list" where
  "time_heuristics time_available_min parts =
     (if time_available_min < 30 then parts @ [micro_fragment]
      else if time_available_min > 180 then parts @ [deep_fragment]
      else parts)"

text \<open>
  The list \<open>parts\<close> as it stands before the final \<open>" ".join(parts)\<close>. The arguments are
  typed \<open>str\<close> and \<open>int\<close>, so \<open>reason_text or ""\<close> is \<open>reason_text\<close>. Note that
  \<open>reason_l\<close> is stripped but, unlike \<open>diff\<close> and \<open>mood_l\<close>, not lowercased. The first
  argument of the model is the parameter of \<open>lower\<close>.
\<close>

definition analyze_parts ::
  "(string \<Rightarrow> string) \<Rightarrow> string \<Rightarrow> string \<Rightarrow> string \<Rightarrow> string \<Rightarrow> int \<Rightarrow> string list" where
  "analyze_parts unicode_lower subject difficulty reason_text mood time_available_min =
     (let parts = [];
          diff = strip (lower unicode_lower difficulty);
          mood_l = strip (lower unicode_lower mood);
          reason_l = strip reason_text;
          parts = difficulty_heuristics diff parts;
          parts = mood_heuristics mood_l parts;
          parts = reason_hint reason_l parts;
          parts = time_heuristics time_available_min parts
      in parts)"

definition analyze_reason_local ::
  "(string \<Rightarrow> string) \<Rightarrow> string \<Rightarrow> string \<Rightarrow> string \<Rightarrow> string \<Rightarrow> int \<Rightarrow> string" where
  "analyze_reason_local unicode_lower subject difficulty reason_text mood time_available_min =
     join '' '' (analyze_parts unicode_lower subject difficulty reason_text mood
       time_available_min)"

text \<open>
  The nine sentences in one list, and the shape they share: a sentence starts with an
  upper-case letter, holds no other one, and does not end with a blank.
\<close>

definition fragments :: "string list" where
  "fragments = [challenge_fragment, manageable_fragment, easy_fragment, rest_fragment,
     formula_fragment, concept_fragment, practice_fragment, micro_fragment, deep_fragment]"

definition is_upper :: "char \<Rightarrow> bool" where
  "is_upper c = (let n = (of_char c :: nat) in 65 \<le> n \<and> n \<le> 90)"

fun sentence :: "string \<Rightarrow> bool" where
  "sentence [] = False"
| "sentence (c # cs) =
     (is_upper c \<and> list_all (\<lambda>x. \<not> is_upper x) cs \<and> last (c # cs) \<noteq> CHR '' '')"

section \<open>StudyMotivationAgent.build_plan_local\<close>

text \<open>One dictionary of \<open>weekly_plan\<close>, and the dictionary that the function returns.\<close>

record weekly_entry =
  day :: string
  focus :: string

record plan =
  motivational_message :: string
  today_tasks :: "string list"
  weekly_plan :: "weekly_entry list"

definition build_plan_local ::
  "(string \<Rightarrow> string) \<Rightarrow> string \<Rightarrow> string \<Rightarrow> string \<Rightarrow> string \<Rightarrow> int \<Rightarrow> plan" where
  "build_plan_local unicode_lower subject difficulty reason_text mood time_available_min =
     (let diff = strip (lower unicode_lower difficulty);
          mood_l = strip (lower unicode_lower mood);
          subj = (if strip subject \<noteq> [] then strip subject else ''your topic'');
          msg_parts = [];
          msg_parts =
            (if diff \<in> set [''very hard'', ''hard'', ''difficult'']
             then msg_parts @ [''Break goals into tiny steps '' @ em_dash @
                                '' each small win builds momentum.'']
             else msg_parts @ [''Use focused blocks and active recall to keep progress steady.'']);
          msg_parts =
            (if mood_l \<in> set [''tired'', ''stressed'', ''low motivation'', ''low'']
             then msg_parts @ [''Start with a 5-minute energizer (stretch/breath) then work in short bursts.'']
             else msg_parts @ [''Start strong with a short warm-up recap to prime your brain.'']);
          msg_parts =
            (if time_available_min < 30
             then msg_parts @ [''Micro-sessions: strict timers (15'' @ en_dash @
                                ''20 min) work best right now.'']
             else if time_available_min < 90
             then msg_parts @ [''Use 25/5 or 50/10 Pomodoro blocks depending on preference.'']
             else msg_parts @ [''Combine deep sessions with short breaks and a clear end-of-day review.'']);
          motivational_message = join '' '' msg_parts;
          weekly_plan =
            [\<lparr>day = ''Mon'', focus = ''Core concept + 1 guided problem''\<rparr>,
             \<lparr>day = ''Tue'', focus = ''Flashcards & active recall''\<rparr>,
             \<lparr>day = ''Wed'', focus = ''Problem solving + explain out loud''\<rparr>,
             \<lparr>day = ''Thu'', focus = ''Timed practice + error review''\<rparr>,
             \<lparr>day = ''Fri'', focus = ''Mock/test-style practice''\<rparr>,
             \<lparr>day = ''Sat'', focus = ''Revise weak spots''\<rparr>,
             \<lparr>day = ''Sun'', focus = ''Rest + light overview''\<rparr>];
          t = time_available_min;
          today_tasks =
            (if t < 30 then
               [''Warm-up (5'' @ en_dash @ ''10 min): quick recap of one key idea from '' @ subj @ ''.'',
                ''Micro-practice (10'' @ en_dash @
                  ''15 min): solve one short problem or make 3 flashcards.'']
             else if t < 90 then
               [''Warm-up (10 min): recap notes for '' @ subj @ ''.'',
                ''Focused session (30'' @ en_dash @
                  ''40 min): deep work on one sub-topic with practice.'',
                ''Consolidation (10'' @ en_dash @
                  ''15 min): write 5 recall questions and answers.'']
             else
               [''Warm-up & review (15 min): revisit yesterday's weak points in '' @ subj @ ''.'',
                ''Deep work (2 x 45'' @ en_dash @
                  ''50 min): practice problems or concept mapping, with short break.'',
                ''Reflection (15 min): note mistakes and plan next day's focus.''])
      in \<lparr>motivational_message = motivational_message,
          today_tasks = today_tasks,
          weekly_plan = weekly_plan\<rparr>)"

section \<open>Exceptions\<close>

text \<open>
  The exceptions the persistence helpers and the enrichment can meet, all of them
  subclasses of \<open>Exception\<close>; \<open>OtherError\<close> stands for any further one, with its message.
  A computation that may raise returns \<open>exn + 'a\<close>, with \<open>Inl\<close> for the exception.
  \<open>try_except body handler\<close> is \<open>try: body  except Exception: handler\<close>.
\<close>

datatype exn =
  FileNotFoundError | OSError | JSONDecodeError | AttributeError | OtherError string

definition try_except :: "exn + 'a \<Rightarrow> exn + 'a \<Rightarrow> exn + 'a" where
  "try_except body handler = (case body of Inl e \<Rightarrow> handler | Inr v \<Rightarrow> Inr v)"

section \<open>StudyMotivationAgent.gemini_enrich\<close>

text \<open>
  The two module globals that \<open>gemini_enrich\<close> reads. \<open>GEMINI_API_KEY\<close> is the result of
  \<open>os.getenv\<close>: a string or \<open>None\<close>; \<open>truthy\<close> is its truth value in a condition.
\<close>

record config =
  GOOGLE_GENAI_AVAILABLE :: bool
  GEMINI_API_KEY :: "string option"

definition truthy :: "string option \<Rightarrow> bool" where
  "truthy k = (case k of None \<Rightarrow> False | Some s \<Rightarrow> s \<noteq> [])"

text \<open>
  The object \<open>genai.generate_text\<close> returns, as far as \<open>gemini_enrich\<close> looks at it:
  \<open>getattr(resp, "text", None)\<close> and \<open>str(resp)\<close>, which may itself raise.
\<close>

record response =
  resp_text :: "string option"
  resp_str :: "exn + string"

definition enrich_prompt :: "string \<Rightarrow> string" where
  "enrich_prompt prompt_extra =
     ''You are an encouraging study coach. Given the user context below, '' @
     ''write a 2-3 sentence motivational paragraph and list 3 practical tasks for today.'' @
     [CHR 0x0A, CHR 0x0A] @ prompt_extra"

text \<open>
  \<open>genai.generate_text\<close> is the external service: a parameter of the model, taking the
  model name and the prompt and returning a response or raising.
\<close>

definition gemini_enrich ::
  "config \<Rightarrow> (string \<Rightarrow> string \<Rightarrow> exn + response) \<Rightarrow> string \<Rightarrow> exn + string option" where
  "gemini_enrich cfg generate_text prompt_extra =
     (if \<not> GOOGLE_GENAI_AVAILABLE cfg \<or> \<not> truthy (GEMINI_API_KEY cfg) then Inr None
      else try_except
        (let prompt = enrich_prompt prompt_extra in
         case generate_text ''models/text-bison-001'' prompt of
           Inl e \<Rightarrow> Inl e
         | Inr resp \<Rightarrow>
             (if truthy (resp_text resp) then Inr (resp_text resp)
              else (case resp_str resp of Inl e \<Rightarrow> Inl e | Inr text \<Rightarrow> Inr (Some text))))
        (Inr None))"

section \<open>Persistence helpers\<close>

text \<open>
  What \<open>json.load\<close> can return. The records of this program hold strings, integers and
  lists of strings; JSON floats are outside the model.
\<close>

datatype json =
  JNull | JBool bool | JInt int | JStr string | JList "json list" | JDict "(string \<times> json) list"

text \<open>
  The state of the one file \<open>DATA_FILE\<close>: \<open>None\<close> when it does not exist, otherwise what
  it holds. \<open>Doc v\<close> is the text that \<open>json.dump\<close> writes for \<open>v\<close> and that \<open>json.load\<close>
  reads back as \<open>v\<close>. \<open>Garbage\<close> is any content that \<open>json.load\<close> rejects: text that is
  not JSON, among it the empty file and every proper prefix of the text of an array.
\<close>

datatype content = Garbage | Doc json

type_synonym files = "content option"

text \<open>
  What the environment does to one read (\<open>open(DATA_FILE, "r")\<close> and the reading inside
  \<open>json.load\<close>) and to one write (\<open>open(DATA_FILE, "w")\<close> and \<open>json.dump\<close>) is an input
  of the model. A write can fail in \<open>open\<close>, which leaves the file as it was, or after
  it: by then \<open>open\<close> has truncated the file, and it holds what \<open>json.dump\<close> had written
  when the error came, a proper prefix of the text of the array.
\<close>

datatype read_fault = ReadOk | ReadFails

datatype write_fault = WriteOk | OpenFails | DumpFails

definition os_path_exists :: "files \<Rightarrow> bool" where
  "os_path_exists fs = (fs \<noteq> None)"

text \<open>\<open>with open(DATA_FILE, "r") as f: return json.load(f)\<close>\<close>

definition read_json :: "read_fault \<Rightarrow> files \<Rightarrow> exn + json" where
  "read_json rd fs =
     (case fs of
        None \<Rightarrow> Inl FileNotFoundError
      | Some c \<Rightarrow>
          (case rd of
             ReadFails \<Rightarrow> Inl OSError
           | ReadOk \<Rightarrow> (case c of Garbage \<Rightarrow> Inl JSONDecodeError | Doc v \<Rightarrow> Inr v)))"

text \<open>\<open>with open(DATA_FILE, "w") as f: json.dump(v, f)\<close>: the outcome and the file after it.\<close>

definition write_json :: "write_fault \<Rightarrow> json \<Rightarrow> files \<Rightarrow> (exn + unit) \<times> files" where
  "write_json wr v fs =
     (case wr of
        OpenFails \<Rightarrow> (Inl OSError, fs)
      | DumpFails \<Rightarrow> (Inl OSError, Some Garbage)
      | WriteOk \<Rightarrow> (Inr (), Some (Doc v)))"

definition load_history :: "read_fault \<Rightarrow> files \<Rightarrow> exn + json" where
  "load_history rd fs =
     (if os_path_exists fs then try_except (read_json rd fs) (Inr (JList []))
      else Inr (JList []))"

text \<open>\<open>history.append(entry)\<close>: only a list has the method.\<close>

definition list_append :: "json \<Rightarrow> json \<Rightarrow> exn + json" where
  "list_append history entry =
     (case history of JList xs \<Rightarrow> Inr (JList (xs @ [entry])) | _ \<Rightarrow> Inl AttributeError)"

text \<open>
  \<open>save_entry\<close> and \<open>clear_history\<close> return \<open>None\<close> or raise, and leave the file in a new
  state. The load and the append of \<open>save_entry\<close> stand outside its \<open>try\<close>.
\<close>

definition save_entry ::
  "read_fault \<Rightarrow> write_fault \<Rightarrow> json \<Rightarrow> files \<Rightarrow> (exn + unit) \<times> files" where
  "save_entry rd wr entry fs =
     (case load_history rd fs of
        Inl e \<Rightarrow> (Inl e, fs)
      | Inr history \<Rightarrow>
          (case list_append history entry of
             Inl e \<Rightarrow> (Inl e, fs)
           | Inr history \<Rightarrow>
               (case write_json wr history fs of
                  (Inl e, fs') \<Rightarrow> (Inr (), fs')
                | (Inr u, fs') \<Rightarrow> (Inr (), fs'))))"

definition clear_history :: "write_fault \<Rightarrow> files \<Rightarrow> (exn + unit) \<times> files" where
  "clear_history wr fs =
     (case write_json wr (JList []) fs of
        (Inl e, fs') \<Rightarrow> (Inr (), fs')
      | (Inr u, fs') \<Rightarrow> (Inr (), fs'))"

section \<open>Properties of the text functions\<close>

lemma startswith_prefix: "startswith s p \<longleftrightarrow> prefix p s"
  by (induction s p rule: startswith.induct) auto

text \<open>\<open>contains\<close> is the substring relation of the library.\<close>

lemma contains_sublist: "contains sub s \<longleftrightarrow> sublist sub s"
  by (induction s) (simp_all add: startswith_prefix sublist_Cons_right)

lemma join_nonempty: "x \<noteq> [] \<Longrightarrow> join sep (x # xs) \<noteq> []"
  by (cases xs) simp_all

lemma filter_outside: "set xs \<inter> A = {} \<Longrightarrow> filter (\<lambda>p. p \<in> A) xs = []"
  by (induction xs) auto

section \<open>The nine sentences differ\<close>

lemma fragments_distinct:
  "distinct [challenge_fragment, manageable_fragment, easy_fragment, rest_fragment,
     formula_fragment, concept_fragment, practice_fragment, micro_fragment, deep_fragment]"
  by (simp add: challenge_fragment_def manageable_fragment_def easy_fragment_def
      rest_fragment_def formula_fragment_def concept_fragment_def practice_fragment_def
      micro_fragment_def deep_fragment_def em_dash_def en_dash_def)

lemma fragments_nonempty:
  "challenge_fragment \<noteq> []" "manageable_fragment \<noteq> []" "easy_fragment \<noteq> []"
  by (simp_all add: challenge_fragment_def manageable_fragment_def easy_fragment_def)

lemma micro_neq_deep: "micro_fragment \<noteq> deep_fragment"
  using fragments_distinct by auto

lemma difficulty_fresh:
  "x \<in> {rest_fragment, formula_fragment, concept_fragment, practice_fragment,
      micro_fragment, deep_fragment} \<Longrightarrow>
   x \<notin> {challenge_fragment, manageable_fragment, easy_fragment}"
  using fragments_distinct by auto

lemma reason_fresh:
  "x \<in> {challenge_fragment, manageable_fragment, easy_fragment, rest_fragment,
      micro_fragment, deep_fragment} \<Longrightarrow>
   x \<notin> {formula_fragment, concept_fragment, practice_fragment}"
  using fragments_distinct by auto

lemma time_fresh:
  "x \<in> {challenge_fragment, manageable_fragment, easy_fragment, rest_fragment,
      formula_fragment, concept_fragment, practice_fragment} \<Longrightarrow>
   x \<notin> {micro_fragment, deep_fragment}"
  using fragments_distinct by auto

section \<open>The four blocks of analyze_reason_local\<close>

text \<open>Each block leaves the list it is given in place and adds to its end.\<close>

lemma difficulty_heuristics_append:
  "difficulty_heuristics diff parts = parts @ difficulty_heuristics diff []"
  by (simp add: difficulty_heuristics_def)

lemma mood_heuristics_append: "mood_heuristics mood_l parts = parts @ mood_heuristics mood_l []"
  by (simp add: mood_heuristics_def)

lemma reason_hint_append: "reason_hint reason_l parts = parts @ reason_hint reason_l []"
  by (simp add: reason_hint_def Let_def)

lemma time_heuristics_append: "time_heuristics t parts = parts @ time_heuristics t []"
  by (simp add: time_heuristics_def)

lemma analyze_parts_blocks:
  "analyze_parts ul s d r m t =
     difficulty_heuristics (strip (lower ul d)) [] @ mood_heuristics (strip (lower ul m)) [] @
     reason_hint (strip r) [] @ time_heuristics t []"
proof -
  have "analyze_parts ul s d r m t =
      time_heuristics t (reason_hint (strip r) (mood_heuristics (strip (lower ul m))
        (difficulty_heuristics (strip (lower ul d)) [])))"
    by (simp add: analyze_parts_def)
  also have "\<dots> = reason_hint (strip r) (mood_heuristics (strip (lower ul m))
        (difficulty_heuristics (strip (lower ul d)) [])) @ time_heuristics t []"
    by (rule time_heuristics_append)
  also have "reason_hint (strip r) (mood_heuristics (strip (lower ul m))
        (difficulty_heuristics (strip (lower ul d)) [])) =
      mood_heuristics (strip (lower ul m)) (difficulty_heuristics (strip (lower ul d)) []) @
      reason_hint (strip r) []"
    by (rule reason_hint_append)
  also have "mood_heuristics (strip (lower ul m)) (difficulty_heuristics (strip (lower ul d)) []) =
      difficulty_heuristics (strip (lower ul d)) [] @ mood_heuristics (strip (lower ul m)) []"
    by (rule mood_heuristics_append)
  finally show ?thesis by simp
qed

lemma set_difficulty_heuristics:
  "set (difficulty_heuristics diff []) \<subseteq> {challenge_fragment, manageable_fragment, easy_fragment}"
  by (simp add: difficulty_heuristics_def)

lemma set_mood_heuristics: "set (mood_heuristics mood_l []) \<subseteq> {rest_fragment}"
  by (auto simp add: mood_heuristics_def)

lemma set_reason_hint:
  "set (reason_hint reason_l []) \<subseteq> {formula_fragment, concept_fragment, practice_fragment}"
  by (auto simp add: reason_hint_def Let_def)

lemma set_time_heuristics: "set (time_heuristics t []) \<subseteq> {micro_fragment, deep_fragment}"
  by (auto simp add: time_heuristics_def)

lemma after_difficulty_fresh:
  "set (mood_heuristics ml [] @ reason_hint rl [] @ time_heuristics t []) \<inter>
     {challenge_fragment, manageable_fragment, easy_fragment} = {}"
proof -
  have "set (mood_heuristics ml [] @ reason_hint rl [] @ time_heuristics t []) \<subseteq>
     {rest_fragment, formula_fragment, concept_fragment, practice_fragment,
      micro_fragment, deep_fragment}"
    using set_mood_heuristics [of ml] set_reason_hint [of rl] set_time_heuristics [of t]
    by auto
  then show ?thesis using difficulty_fresh by blast
qed

lemma before_time_fresh:
  "set (difficulty_heuristics diff [] @ mood_heuristics ml [] @ reason_hint rl []) \<inter>
     {micro_fragment, deep_fragment} = {}"
proof -
  have "set (difficulty_heuristics diff [] @ mood_heuristics ml [] @ reason_hint rl []) \<subseteq>
     {challenge_fragment, manageable_fragment, easy_fragment, rest_fragment,
      formula_fragment, concept_fragment, practice_fragment}"
    using set_difficulty_heuristics [of diff] set_mood_heuristics [of ml] set_reason_hint [of rl]
    by auto
  then show ?thesis using time_fresh by blast
qed

lemma around_reason_fresh:
  "set (difficulty_heuristics diff [] @ mood_heuristics ml [] @ time_heuristics t []) \<inter>
     {formula_fragment, concept_fragment, practice_fragment} = {}"
proof -
  have "set (difficulty_heuristics diff [] @ mood_heuristics ml [] @ time_heuristics t []) \<subseteq>
     {challenge_fragment, manageable_fragment, easy_fragment, rest_fragment,
      micro_fragment, deep_fragment}"
    using set_difficulty_heuristics [of diff] set_mood_heuristics [of ml]
      set_time_heuristics [of t]
    by auto
  then show ?thesis using reason_fresh by blast
qed

lemma difficulty_filter:
  "filter (\<lambda>p. p \<in> {challenge_fragment, manageable_fragment, easy_fragment})
     (analyze_parts ul s d r m t) = difficulty_heuristics (strip (lower ul d)) []"
proof -
  have "filter (\<lambda>p. p \<in> {challenge_fragment, manageable_fragment, easy_fragment})
     (difficulty_heuristics (strip (lower ul d)) []) = difficulty_heuristics (strip (lower ul d)) []"
    by (simp add: difficulty_heuristics_def)
  then show ?thesis
    using filter_outside [OF after_difficulty_fresh, of "strip (lower ul m)" "strip r" t]
    by (simp add: analyze_parts_blocks)
qed

text \<open>
  What the reason block does: each of its three sentences is in \<open>parts\<close> exactly when the
  stripped reason text, in the letter case the user typed, contains a keyword of its group.
\<close>

lemma reason_neq:
  "formula_fragment \<noteq> concept_fragment" "formula_fragment \<noteq> practice_fragment"
  "concept_fragment \<noteq> practice_fragment"
  using fragments_distinct by auto

lemma reason_in_analyze_parts:
  assumes "x \<in> {formula_fragment, concept_fragment, practice_fragment}"
  shows "x \<in> set (analyze_parts ul s d r m t) \<longleftrightarrow> x \<in> set (reason_hint (strip r) [])"
  using assms around_reason_fresh [of "strip (lower ul d)" "strip (lower ul m)" t]
  unfolding analyze_parts_blocks by auto

lemma reason_hint_formula:
  "formula_fragment \<in> set (reason_hint rl []) \<longleftrightarrow>
     contains ''formul'' rl \<or> contains ''formula'' rl"
proof (cases "rl = []")
  case True
  then show ?thesis by (simp add: reason_hint_def)
next
  case False
  then show ?thesis using reason_neq by (auto simp add: reason_hint_def Let_def)
qed

lemma reason_hint_concept:
  "concept_fragment \<in> set (reason_hint rl []) \<longleftrightarrow>
     contains ''concept'' rl \<or> contains ''abstract'' rl"
proof (cases "rl = []")
  case True
  then show ?thesis by (simp add: reason_hint_def)
next
  case False
  then show ?thesis using reason_neq by (auto simp add: reason_hint_def Let_def)
qed

lemma reason_hint_practice:
  "practice_fragment \<in> set (reason_hint rl []) \<longleftrightarrow>
     contains ''practice'' rl \<or> contains ''problems'' rl"
proof (cases "rl = []")
  case True
  then show ?thesis by (simp add: reason_hint_def)
next
  case False
  then show ?thesis using reason_neq by (auto simp add: reason_hint_def Let_def)
qed

lemma analyze_reason_keywords:
  "(formula_fragment \<in> set (analyze_parts ul s d r m t) \<longleftrightarrow>
      contains ''formul'' (strip r) \<or> contains ''formula'' (strip r)) \<and>
   (concept_fragment \<in> set (analyze_parts ul s d r m t) \<longleftrightarrow>
      contains ''concept'' (strip r) \<or> contains ''abstract'' (strip r)) \<and>
   (practice_fragment \<in> set (analyze_parts ul s d r m t) \<longleftrightarrow>
      contains ''practice'' (strip r) \<or> contains ''problems'' (strip r))"
  by (simp add: reason_in_analyze_parts reason_hint_formula reason_hint_concept
      reason_hint_practice)

text \<open>The example of the specification, typed in lower case, gives two of the three.\<close>

lemma strip_example:
  "strip ''too many formulas and concepts'' = ''too many formulas and concepts''"
  by code_simp

lemma example_contains:
  "contains ''formul'' ''too many formulas and concepts''"
  "contains ''concept'' ''too many formulas and concepts''"
  "\<not> contains ''practice'' ''too many formulas and concepts''"
  "\<not> contains ''problems'' ''too many formulas and concepts''"
  by code_simp+

lemma analyze_reason_example:
  "formula_fragment \<in> set (analyze_parts ul s d ''too many formulas and concepts'' m t) \<and>
   concept_fragment \<in> set (analyze_parts ul s d ''too many formulas and concepts'' m t) \<and>
   practice_fragment \<notin> set (analyze_parts ul s d ''too many formulas and concepts'' m t)"
  using analyze_reason_keywords [of ul s d "''too many formulas and concepts''" m t,
      unfolded strip_example] example_contains
  by blast

section \<open>Sentences inside the joined text\<close>

lemma sentenceE:
  assumes "sentence f"
  obtains c fb where "f = c # fb" "is_upper c" "\<forall>x\<in>set fb. \<not> is_upper x"
    "last f \<noteq> CHR '' ''"
  using assms by (cases f) (auto simp add: list_all_iff)

lemma sublist_skip:
  assumes "c \<notin> set xs" "sublist (c # sub) (xs @ ys)"
  shows "sublist (c # sub) ys"
  using assms by (induction xs) (auto simp add: sublist_Cons_right)

lemma sublist_join: "p \<in> set ps \<Longrightarrow> sublist p (join sep ps)"
proof (induction ps rule: induct_list012)
  case 1
  then show ?case by simp
next
  case (2 x)
  then show ?case by simp
next
  case (3 x y zs)
  show ?case
  proof (cases "p = x")
    case True
    then show ?thesis by simp
  next
    case False
    with 3 have "sublist p (join sep (y # zs))" by simp
    then obtain ps ss where "join sep (y # zs) = ps @ p @ ss"
      unfolding sublist_def by blast
    then have "x @ sep @ join sep (y # zs) = (x @ sep @ ps) @ p @ ss" by simp
    then have "sublist p (x @ sep @ join sep (y # zs))"
      unfolding sublist_def by blast
    then show ?thesis by simp
  qed
qed

lemma join_sentence_hd:
  assumes "sentence y"
  shows "\<exists>v rest. join sep (y # zs) = v # rest \<and> is_upper v"
proof -
  from assms obtain c fb where y: "y = c # fb" and c: "is_upper c"
    by (rule sentenceE)
  show ?thesis using y c by (cases zs) auto
qed

lemma sublist_join_prefix:
  assumes "sentence f"
  shows "\<forall>p\<in>set ps. sentence p \<Longrightarrow> sublist f (join '' '' ps) \<Longrightarrow> \<exists>p\<in>set ps. prefix f p"
proof (induction ps rule: induct_list012)
  case 1
  from assms show ?case using 1 by (cases f) auto
next
  case (2 x)
  from assms obtain c fb where f: "f = c # fb" and c: "is_upper c" by (rule sentenceE)
  from 2 have "sentence x" by simp
  then obtain X xb where x: "x = X # xb" and xb: "\<forall>a\<in>set xb. \<not> is_upper a"
    by (rule sentenceE)
  from 2 have "sublist f x" by simp
  then have "prefix f x \<or> sublist f xb"
    by (simp add: x sublist_Cons_right)
  moreover have "\<not> sublist f xb"
  proof
    assume "sublist f xb"
    then have "set f \<subseteq> set xb" by (rule set_mono_sublist)
    with f c xb show False by auto
  qed
  ultimately show ?case by simp
next
  case (3 x y zs)
  from assms obtain c fb where f: "f = c # fb" and c: "is_upper c"
    and fb: "\<forall>a\<in>set fb. \<not> is_upper a" and lastf: "last f \<noteq> CHR '' ''"
    by (rule sentenceE)
  from 3 have "sentence x" by simp
  then obtain X xb where x: "x = X # xb" and xb: "\<forall>a\<in>set xb. \<not> is_upper a"
    by (rule sentenceE)
  from 3 have sy: "sentence y" by simp
  define J where "J = join '' '' (y # zs)"
  from join_sentence_hd [OF sy] obtain v rest where J: "J = v # rest" and v: "is_upper v"
    unfolding J_def by blast
  have blank: "\<not> is_upper CHR '' ''" by (simp add: is_upper_def)
  from 3 have sub: "sublist f (X # (xb @ '' '') @ J)" by (simp add: x J_def)
  then have "prefix f (X # (xb @ '' '') @ J) \<or> sublist f ((xb @ '' '') @ J)"
    by (simp add: sublist_Cons_right)
  then show ?case
  proof
    assume "sublist f ((xb @ '' '') @ J)"
    moreover have "c \<notin> set (xb @ '' '')" using c xb blank by auto
    ultimately have "sublist f J" unfolding f by (rule sublist_skip [rotated])
    with 3 have "\<exists>p\<in>set (y # zs). prefix f p" by (simp add: J_def)
    then show ?thesis by auto
  next
    assume "prefix f (X # (xb @ '' '') @ J)"
    then have "prefix f (x @ ('' '' @ J))" by (simp add: x)
    then have "prefix f x \<or> (\<exists>us. f = x @ us \<and> prefix us ('' '' @ J))"
      by (simp add: prefix_append)
    then show ?thesis
    proof
      assume "prefix f x"
      then show ?thesis by simp
    next
      assume "\<exists>us. f = x @ us \<and> prefix us ('' '' @ J)"
      then obtain us where us: "f = x @ us" and pre: "prefix us ('' '' @ J)" by blast
      show ?thesis
      proof (cases us)
        case Nil
        with us show ?thesis by simp
      next
        case (Cons u us')
        with pre have u: "u = CHR '' ''" and pre': "prefix us' J" by simp_all
        show ?thesis
        proof (cases us')
          case Nil
          with us Cons u have "last f = CHR '' ''" by simp
          with lastf show ?thesis by simp
        next
          case (Cons w us'')
          with pre' J have "w = v" by simp
          moreover have "w \<in> set fb" using us x \<open>us = u # us'\<close> Cons f by auto
          ultimately show ?thesis using v fb by auto
        qed
      qed
    qed
  qed
qed

lemma fragments_sentences: "\<forall>p\<in>set fragments. sentence p"
  by code_simp

lemma fragments_prefix_free: "\<forall>f\<in>set fragments. \<forall>p\<in>set fragments. prefix f p \<longrightarrow> f = p"
  by code_simp

lemma set_analyze_parts: "set (analyze_parts ul s d r m t) \<subseteq> set fragments"
  using set_difficulty_heuristics [of "strip (lower ul d)"]
    set_mood_heuristics [of "strip (lower ul m)"] set_reason_hint [of "strip r"]
    set_time_heuristics [of t]
  unfolding analyze_parts_blocks fragments_def by auto

text \<open>
  The returned text contains one of the nine sentences exactly when the sentence is in
  \<open>parts\<close>.
\<close>

lemma contains_analysis:
  assumes "f \<in> set fragments"
  shows "contains f (analyze_reason_local ul s d r m t) \<longleftrightarrow>
    f \<in> set (analyze_parts ul s d r m t)"
proof
  assume "f \<in> set (analyze_parts ul s d r m t)"
  then show "contains f (analyze_reason_local ul s d r m t)"
    by (simp add: contains_sublist analyze_reason_local_def sublist_join)
next
  assume "contains f (analyze_reason_local ul s d r m t)"
  then have sub: "sublist f (join '' '' (analyze_parts ul s d r m t))"
    by (simp add: contains_sublist analyze_reason_local_def)
  have all: "\<forall>p\<in>set (analyze_parts ul s d r m t). sentence p"
    using set_analyze_parts [of ul s d r m t] fragments_sentences by blast
  from assms fragments_sentences have "sentence f" by blast
  from sublist_join_prefix [OF this all sub]
  obtain p where p: "p \<in> set (analyze_parts ul s d r m t)" and pre: "prefix f p" by blast
  from p set_analyze_parts [of ul s d r m t] have "p \<in> set fragments" by blast
  with assms pre fragments_prefix_free have "f = p" by blast
  with p show "f \<in> set (analyze_parts ul s d r m t)" by simp
qed

lemma join_snoc: "xs \<noteq> [] \<Longrightarrow> join sep (xs @ [y]) = join sep xs @ sep @ y"
  by (induction xs rule: induct_list012) simp_all

lemma analyze_parts_nonempty: "analyze_parts ul s d r m t \<noteq> []"
  by (simp add: analyze_parts_blocks difficulty_heuristics_def)

section \<open>Properties of analyze_reason_local\<close>

text \<open>
  C1, at an input where the code departs from it. The claim has each reason sentence
  appended exactly when the lowercased reason text contains a keyword of its group. The
  code strips the reason text but never lowercases it: for the reason text
  \<open>Formulas are confusing\<close>, whose lowercased form contains \<open>formul\<close>, the formula
  sentence is not appended, and the whole analysis is the difficulty sentence alone.
\<close>

theorem analyze_reason_capital_keyword_missed:
  "contains ''formul'' (lower ul ''Formulas are confusing'') \<and>
   formula_fragment \<notin>
     set (analyze_parts ul ''Maths'' ''Hard'' ''Formulas are confusing'' ''Focused'' 60) \<and>
   analyze_reason_local ul ''Maths'' ''Hard'' ''Formulas are confusing'' ''Focused'' 60 =
     challenge_fragment"
proof -
  have low: "contains ''formul'' (lower ul ''Formulas are confusing'')"
    by code_simp
  have "analyze_parts ul ''Maths'' ''Hard'' ''Formulas are confusing'' ''Focused'' 60 =
      [challenge_fragment]"
    by code_simp
  then show ?thesis
    using low fragments_distinct by (auto simp add: analyze_reason_local_def)
qed

text \<open>
  C6 as stated fails: the claim gives the easy sentence to every string that is not one
  of the five names in some letter case. The code strips the difficulty as well as
  lowercasing it, so \<open>Hard\<close> followed by a blank, which is none of the five names in any
  letter case, gets the challenge sentence and not the easy one: the returned analysis
  is the challenge sentence.
\<close>

theorem difficulty_trailing_blank_is_hard:
  "lower id ''Hard '' \<notin> set [''very hard'', ''hard'', ''difficult'', ''medium'', ''okay''] \<and>
   analyze_parts id ''Maths'' ''Hard '' [] ''Focused'' 60 = [challenge_fragment] \<and>
   easy_fragment \<notin> set (analyze_parts id ''Maths'' ''Hard '' [] ''Focused'' 60) \<and>
   analyze_reason_local id ''Maths'' ''Hard '' [] ''Focused'' 60 = challenge_fragment \<and>
   \<not> contains easy_fragment (analyze_reason_local id ''Maths'' ''Hard '' [] ''Focused'' 60)"
proof -
  have 1: "lower id ''Hard '' \<notin> set [''very hard'', ''hard'', ''difficult'', ''medium'', ''okay'']"
    by code_simp
  have 2: "analyze_parts id ''Maths'' ''Hard '' [] ''Focused'' 60 = [challenge_fragment]"
    by code_simp
  have 3: "\<not> contains easy_fragment challenge_fragment"
    by code_simp
  show ?thesis using 1 2 3 fragments_distinct by (auto simp add: analyze_reason_local_def)
qed

text \<open>
  C6, amended. For every difficulty string, the returned analysis contains exactly one of
  the three difficulty sentences, selected by the difficulty lowercased and stripped of
  surrounding white space: \<open>very hard\<close>, \<open>hard\<close> or \<open>difficult\<close> gives the challenge
  sentence, \<open>medium\<close> or \<open>okay\<close> the manageable one, anything else the easy one. In
  particular the five names in any letter case select their sentence. The same holds of
  the list \<open>parts\<close>, where the sentence stands once, and the analysis is never empty.
\<close>

theorem analyze_difficulty_fragment:
  "(strip (lower ul d) \<in> set [''very hard'', ''hard'', ''difficult''] \<longrightarrow>
      contains challenge_fragment (analyze_reason_local ul s d r m t) \<and>
      \<not> contains manageable_fragment (analyze_reason_local ul s d r m t) \<and>
      \<not> contains easy_fragment (analyze_reason_local ul s d r m t) \<and>
      filter (\<lambda>p. p \<in> {challenge_fragment, manageable_fragment, easy_fragment})
        (analyze_parts ul s d r m t) = [challenge_fragment]) \<and>
   (strip (lower ul d) \<in> set [''medium'', ''okay''] \<longrightarrow>
      \<not> contains challenge_fragment (analyze_reason_local ul s d r m t) \<and>
      contains manageable_fragment (analyze_reason_local ul s d r m t) \<and>
      \<not> contains easy_fragment (analyze_reason_local ul s d r m t) \<and>
      filter (\<lambda>p. p \<in> {challenge_fragment, manageable_fragment, easy_fragment})
        (analyze_parts ul s d r m t) = [manageable_fragment]) \<and>
   (strip (lower ul d) \<notin> set [''very hard'', ''hard'', ''difficult'', ''medium'', ''okay''] \<longrightarrow>
      \<not> contains challenge_fragment (analyze_reason_local ul s d r m t) \<and>
      \<not> contains manageable_fragment (analyze_reason_local ul s d r m t) \<and>
      contains easy_fragment (analyze_reason_local ul s d r m t) \<and>
      filter (\<lambda>p. p \<in> {challenge_fragment, manageable_fragment, easy_fragment})
        (analyze_parts ul s d r m t) = [easy_fragment]) \<and>
   (lower ul d \<in> set [''very hard'', ''hard'', ''difficult''] \<longrightarrow>
      contains challenge_fragment (analyze_reason_local ul s d r m t) \<and>
      \<not> contains manageable_fragment (analyze_reason_local ul s d r m t) \<and>
      \<not> contains easy_fragment (analyze_reason_local ul s d r m t)) \<and>
   (lower ul d \<in> set [''medium'', ''okay''] \<longrightarrow>
      \<not> contains challenge_fragment (analyze_reason_local ul s d r m t) \<and>
      contains manageable_fragment (analyze_reason_local ul s d r m t) \<and>
      \<not> contains easy_fragment (analyze_reason_local ul s d r m t)) \<and>
   length (filter (\<lambda>p. p \<in> {challenge_fragment, manageable_fragment, easy_fragment})
     (analyze_parts ul s d r m t)) = 1 \<and>
   analyze_reason_local ul s d r m t \<noteq> []"
proof -
  let ?D = "\<lambda>p. p \<in> {challenge_fragment, manageable_fragment, easy_fragment}"
  let ?parts = "analyze_parts ul s d r m t"
  let ?res = "analyze_reason_local ul s d r m t"
  have ne: "?res \<noteq> []"
    using fragments_nonempty
    by (simp add: analyze_reason_local_def analyze_parts_blocks difficulty_heuristics_def
        join_nonempty)
  have mem: "f \<in> set ?parts \<longleftrightarrow> f \<in> set (filter ?D ?parts)"
    if "f \<in> {challenge_fragment, manageable_fragment, easy_fragment}" for f
    using that by auto
  have in_result: "contains f ?res \<longleftrightarrow> f \<in> set (difficulty_heuristics (strip (lower ul d)) [])"
    if "f \<in> {challenge_fragment, manageable_fragment, easy_fragment}" for f
  proof -
    from that have "f \<in> set fragments" by (auto simp add: fragments_def)
    then have "contains f ?res \<longleftrightarrow> f \<in> set ?parts" by (rule contains_analysis)
    also have "\<dots> \<longleftrightarrow> f \<in> set (filter ?D ?parts)" using that by (rule mem)
    finally show ?thesis by (simp only: difficulty_filter)
  qed
  have neq: "challenge_fragment \<noteq> manageable_fragment" "challenge_fragment \<noteq> easy_fragment"
      "manageable_fragment \<noteq> easy_fragment"
    using fragments_distinct by auto
  have c: "contains challenge_fragment ?res \<longleftrightarrow>
      difficulty_heuristics (strip (lower ul d)) [] = [challenge_fragment]"
    using neq by (subst in_result) (auto simp add: difficulty_heuristics_def)
  have m: "contains manageable_fragment ?res \<longleftrightarrow>
      difficulty_heuristics (strip (lower ul d)) [] = [manageable_fragment]"
    using neq by (subst in_result) (auto simp add: difficulty_heuristics_def)
  have e: "contains easy_fragment ?res \<longleftrightarrow>
      difficulty_heuristics (strip (lower ul d)) [] = [easy_fragment]"
    using neq by (subst in_result) (auto simp add: difficulty_heuristics_def)
  have names: "strip ''very hard'' = ''very hard''" "strip ''hard'' = ''hard''"
      "strip ''difficult'' = ''difficult''" "strip ''medium'' = ''medium''"
      "strip ''okay'' = ''okay''"
    by code_simp+
  have hard: "lower ul d \<in> set [''very hard'', ''hard'', ''difficult''] \<longrightarrow>
      difficulty_heuristics (strip (lower ul d)) [] = [challenge_fragment]"
    using names by (auto simp add: difficulty_heuristics_def)
  have medium: "lower ul d \<in> set [''medium'', ''okay''] \<longrightarrow>
      difficulty_heuristics (strip (lower ul d)) [] = [manageable_fragment]"
    using names by (auto simp add: difficulty_heuristics_def)
  show ?thesis
    using ne hard medium neq unfolding difficulty_filter c m e
    by (simp add: difficulty_heuristics_def)
qed

theorem analyze_difficulty_fragment_witness:
  "contains challenge_fragment (analyze_reason_local id ''Maths'' ''Very Hard'' [] ''Focused'' 60) \<and>
   \<not> contains easy_fragment (analyze_reason_local id ''Maths'' ''Very Hard'' [] ''Focused'' 60) \<and>
   contains manageable_fragment (analyze_reason_local id ''Maths'' ''oKaY'' [] ''Focused'' 60) \<and>
   contains easy_fragment (analyze_reason_local id ''Maths'' ''Easy'' [] ''Focused'' 60) \<and>
   \<not> contains challenge_fragment (analyze_reason_local id ''Maths'' ''Easy'' [] ''Focused'' 60) \<and>
   contains manageable_fragment
     (analyze_reason_local id ''Maths'' '' medium '' [] ''Focused'' 60) \<and>
   filter (\<lambda>p. p \<in> {challenge_fragment, manageable_fragment, easy_fragment})
     (analyze_parts id ''Maths'' '' medium '' [] ''Focused'' 60) = [manageable_fragment]"
proof -
  have 1: "lower id ''Very Hard'' = ''very hard''" by code_simp
  have 2: "lower id ''oKaY'' = ''okay''" by code_simp
  have 3: "strip (lower id ''Easy'') = ''easy''" by code_simp
  have 4: "strip (lower id '' medium '') = ''medium''" by code_simp
  have a: "contains challenge_fragment
        (analyze_reason_local id ''Maths'' ''Very Hard'' [] ''Focused'' 60) \<and>
      \<not> contains easy_fragment (analyze_reason_local id ''Maths'' ''Very Hard'' [] ''Focused'' 60)"
    using analyze_difficulty_fragment [where ul = id and d = "''Very Hard''"
        and s = "''Maths''" and r = "[]" and m = "''Focused''" and t = 60] 1
    by simp
  have b: "contains manageable_fragment
        (analyze_reason_local id ''Maths'' ''oKaY'' [] ''Focused'' 60)"
    using analyze_difficulty_fragment [where ul = id and d = "''oKaY''"
        and s = "''Maths''" and r = "[]" and m = "''Focused''" and t = 60] 2
    by simp
  have c: "contains easy_fragment (analyze_reason_local id ''Maths'' ''Easy'' [] ''Focused'' 60) \<and>
      \<not> contains challenge_fragment (analyze_reason_local id ''Maths'' ''Easy'' [] ''Focused'' 60)"
    using analyze_difficulty_fragment [where ul = id and d = "''Easy''"
        and s = "''Maths''" and r = "[]" and m = "''Focused''" and t = 60] 3
    by simp
  have d: "contains manageable_fragment
        (analyze_reason_local id ''Maths'' '' medium '' [] ''Focused'' 60) \<and>
      filter (\<lambda>p. p \<in> {challenge_fragment, manageable_fragment, easy_fragment})
        (analyze_parts id ''Maths'' '' medium '' [] ''Focused'' 60) = [manageable_fragment]"
    using analyze_difficulty_fragment [where ul = id and d = "'' medium ''"
        and s = "''Maths''" and r = "[]" and m = "''Focused''" and t = 60] 4
    by simp
  from a b c d show ?thesis by blast
qed

text \<open>
  C7. For every integer time, the returned analysis contains the micro-task sentence
  exactly when the time is below 30 and the deep-work sentence exactly when it is above
  180; from 30 to 180 inclusive it contains neither. The analysis at any time is the
  analysis at time 30 followed, below 30 and above 180, by a blank and the sentence. The
  same holds of the list \<open>parts\<close>, to which the time block appends the sentence.
\<close>

theorem analyze_time_fragment:
  "(contains micro_fragment (analyze_reason_local ul s d r m t) \<longleftrightarrow> t < 30) \<and>
   (contains deep_fragment (analyze_reason_local ul s d r m t) \<longleftrightarrow> 180 < t) \<and>
   (30 \<le> t \<and> t \<le> 180 \<longrightarrow>
      \<not> contains micro_fragment (analyze_reason_local ul s d r m t) \<and>
      \<not> contains deep_fragment (analyze_reason_local ul s d r m t)) \<and>
   analyze_reason_local ul s d r m t =
     analyze_reason_local ul s d r m 30 @
       (if t < 30 then '' '' @ micro_fragment
        else if 180 < t then '' '' @ deep_fragment else []) \<and>
   analyze_parts ul s d r m t =
     analyze_parts ul s d r m 30 @
       (if t < 30 then [micro_fragment] else if 180 < t then [deep_fragment] else []) \<and>
   (micro_fragment \<in> set (analyze_parts ul s d r m t) \<longleftrightarrow> t < 30) \<and>
   (deep_fragment \<in> set (analyze_parts ul s d r m t) \<longleftrightarrow> 180 < t)"
proof -
  have t: "time_heuristics t [] =
      (if t < 30 then [micro_fragment] else if 180 < t then [deep_fragment] else [])"
    by (simp add: time_heuristics_def)
  have t30: "time_heuristics 30 [] = []"
    by (simp add: time_heuristics_def)
  have 1: "analyze_parts ul s d r m t = analyze_parts ul s d r m 30 @
       (if t < 30 then [micro_fragment] else if 180 < t then [deep_fragment] else [])"
    by (simp add: analyze_parts_blocks t t30)
  have fresh: "micro_fragment \<notin> set (analyze_parts ul s d r m 30)"
      "deep_fragment \<notin> set (analyze_parts ul s d r m 30)"
    using before_time_fresh [of "strip (lower ul d)" "strip (lower ul m)" "strip r"]
    by (simp_all add: analyze_parts_blocks t30)
  have 2: "micro_fragment \<in> set (analyze_parts ul s d r m t) \<longleftrightarrow> t < 30"
    using fresh micro_neq_deep by (subst 1) auto
  have 3: "deep_fragment \<in> set (analyze_parts ul s d r m t) \<longleftrightarrow> 180 < t"
    using fresh micro_neq_deep by (subst 1) auto
  have 4: "contains micro_fragment (analyze_reason_local ul s d r m t) \<longleftrightarrow> t < 30"
    using 2 by (simp add: contains_analysis fragments_def)
  have 5: "contains deep_fragment (analyze_reason_local ul s d r m t) \<longleftrightarrow> 180 < t"
    using 3 by (simp add: contains_analysis fragments_def)
  have 6: "analyze_reason_local ul s d r m t =
     analyze_reason_local ul s d r m 30 @
       (if t < 30 then '' '' @ micro_fragment
        else if 180 < t then '' '' @ deep_fragment else [])"
    unfolding analyze_reason_local_def
    by (subst 1) (simp add: join_snoc analyze_parts_nonempty)
  from 1 2 3 4 5 6 show ?thesis by auto
qed

theorem analyze_time_fragment_witness:
  "contains micro_fragment (analyze_reason_local id ''Maths'' ''Hard'' [] ''Focused'' 29) \<and>
   contains deep_fragment (analyze_reason_local id ''Maths'' ''Hard'' [] ''Focused'' 181) \<and>
   \<not> contains micro_fragment (analyze_reason_local id ''Maths'' ''Hard'' [] ''Focused'' 30) \<and>
   \<not> contains deep_fragment (analyze_reason_local id ''Maths'' ''Hard'' [] ''Focused'' 180)"
proof -
  have a: "contains micro_fragment (analyze_reason_local id ''Maths'' ''Hard'' [] ''Focused'' 29)"
    using analyze_time_fragment [of id "''Maths''" "''Hard''" "[]" "''Focused''" 29, simplified]
    by blast
  have b: "contains deep_fragment (analyze_reason_local id ''Maths'' ''Hard'' [] ''Focused'' 181)"
    using analyze_time_fragment [of id "''Maths''" "''Hard''" "[]" "''Focused''" 181, simplified]
    by blast
  have c: "\<not> contains micro_fragment
      (analyze_reason_local id ''Maths'' ''Hard'' [] ''Focused'' 30)"
    using analyze_time_fragment [of id "''Maths''" "''Hard''" "[]" "''Focused''" 30, simplified]
    by blast
  have d: "\<not> contains deep_fragment
      (analyze_reason_local id ''Maths'' ''Hard'' [] ''Focused'' 180)"
    using analyze_time_fragment [of id "''Maths''" "''Hard''" "[]" "''Focused''" 180, simplified]
    by blast
  from a b c d show ?thesis by blast
qed

text \<open>
  C10. The analysis does not depend on the subject: for any two subjects and the same
  difficulty, reason text, mood and time, \<open>analyze_reason_local\<close> returns the same text.
\<close>

theorem analyze_ignores_subject:
  "analyze_reason_local ul subject1 difficulty reason_text mood time_available_min =
   analyze_reason_local ul subject2 difficulty reason_text mood time_available_min"
  by (simp add: analyze_reason_local_def analyze_parts_def)

section \<open>Properties of build_plan_local\<close>

lemma today_tasks_build_plan:
  "today_tasks (build_plan_local ul s d r m t) =
     (let subj = (if strip s \<noteq> [] then strip s else ''your topic'') in
      if t < 30 then
        [''Warm-up (5'' @ en_dash @ ''10 min): quick recap of one key idea from '' @ subj @ ''.'',
         ''Micro-practice (10'' @ en_dash @
           ''15 min): solve one short problem or make 3 flashcards.'']
      else if t < 90 then
        [''Warm-up (10 min): recap notes for '' @ subj @ ''.'',
         ''Focused session (30'' @ en_dash @
           ''40 min): deep work on one sub-topic with practice.'',
         ''Consolidation (10'' @ en_dash @
           ''15 min): write 5 recall questions and answers.'']
      else
        [''Warm-up & review (15 min): revisit yesterday's weak points in '' @ subj @ ''.'',
         ''Deep work (2 x 45'' @ en_dash @
           ''50 min): practice problems or concept mapping, with short break.'',
         ''Reflection (15 min): note mistakes and plan next day's focus.''])"
  by (simp add: build_plan_local_def Let_def)

text \<open>
  C3. For every input the tasks of today are chosen by the time bucket alone (and the
  subject they quote): below 30 minutes there are exactly 2 tasks, from 30 up to but not
  including 90 exactly 3, from 90 on exactly 3; two times of one bucket give the same
  list, and the lists of two different buckets differ, whatever the other arguments.
\<close>

theorem today_tasks_by_time_bucket:
  "(t < 30 \<longrightarrow> length (today_tasks (build_plan_local ul s d r m t)) = 2) \<and>
   (30 \<le> t \<and> t < 90 \<longrightarrow> length (today_tasks (build_plan_local ul s d r m t)) = 3) \<and>
   (90 \<le> t \<longrightarrow> length (today_tasks (build_plan_local ul s d r m t)) = 3) \<and>
   ((t < 30 \<and> t' < 30) \<or> (30 \<le> t \<and> t < 90 \<and> 30 \<le> t' \<and> t' < 90) \<or> (90 \<le> t \<and> 90 \<le> t') \<longrightarrow>
      today_tasks (build_plan_local ul s d r m t) = today_tasks (build_plan_local ul s d' r' m' t')) \<and>
   (ta < 30 \<and> 30 \<le> tb \<and> tb < 90 \<and> 90 \<le> tc \<longrightarrow>
      today_tasks (build_plan_local ul sa da ra ma ta) \<noteq>
        today_tasks (build_plan_local ul sb db rb mb tb) \<and>
      today_tasks (build_plan_local ul sa da ra ma ta) \<noteq>
        today_tasks (build_plan_local ul sc dc rc mc tc) \<and>
      today_tasks (build_plan_local ul sb db rb mb tb) \<noteq>
        today_tasks (build_plan_local ul sc dc rc mc tc))"
proof -
  have len: "(t < 30 \<longrightarrow> length (today_tasks (build_plan_local ul s d r m t)) = 2) \<and>
      (30 \<le> t \<and> t < 90 \<longrightarrow> length (today_tasks (build_plan_local ul s d r m t)) = 3) \<and>
      (90 \<le> t \<longrightarrow> length (today_tasks (build_plan_local ul s d r m t)) = 3)"
    by (simp add: today_tasks_build_plan Let_def)
  have same: "(t < 30 \<and> t' < 30) \<or> (30 \<le> t \<and> t < 90 \<and> 30 \<le> t' \<and> t' < 90) \<or>
      (90 \<le> t \<and> 90 \<le> t') \<longrightarrow>
      today_tasks (build_plan_local ul s d r m t) = today_tasks (build_plan_local ul s d' r' m' t')"
    by (auto simp add: today_tasks_build_plan Let_def)
  have diff: "ta < 30 \<and> 30 \<le> tb \<and> tb < 90 \<and> 90 \<le> tc \<longrightarrow>
      today_tasks (build_plan_local ul sa da ra ma ta) \<noteq>
        today_tasks (build_plan_local ul sb db rb mb tb) \<and>
      today_tasks (build_plan_local ul sa da ra ma ta) \<noteq>
        today_tasks (build_plan_local ul sc dc rc mc tc) \<and>
      today_tasks (build_plan_local ul sb db rb mb tb) \<noteq>
        today_tasks (build_plan_local ul sc dc rc mc tc)"
    by (simp add: today_tasks_build_plan Let_def)
  from len same diff show ?thesis by blast
qed

theorem today_tasks_by_time_bucket_witness:
  "length (today_tasks (build_plan_local id ''Maths'' ''Hard'' [] ''Focused'' 15)) = 2 \<and>
   length (today_tasks (build_plan_local id ''Maths'' ''Hard'' [] ''Focused'' 60)) = 3 \<and>
   length (today_tasks (build_plan_local id ''Maths'' ''Hard'' [] ''Focused'' 200)) = 3 \<and>
   today_tasks (build_plan_local id ''Maths'' ''Hard'' [] ''Focused'' 15) =
     today_tasks (build_plan_local id ''Maths'' ''Easy'' ''x'' ''Tired'' 29) \<and>
   today_tasks (build_plan_local id ''Maths'' ''Hard'' [] ''Focused'' 15) \<noteq>
     today_tasks (build_plan_local id ''Maths'' ''Hard'' [] ''Focused'' 60) \<and>
   today_tasks (build_plan_local id ''Maths'' ''Hard'' [] ''Focused'' 15) \<noteq>
     today_tasks (build_plan_local id ''Maths'' ''Hard'' [] ''Focused'' 200) \<and>
   today_tasks (build_plan_local id ''Maths'' ''Hard'' [] ''Focused'' 60) \<noteq>
     today_tasks (build_plan_local id ''Maths'' ''Hard'' [] ''Focused'' 200)"
proof -
  note w = today_tasks_by_time_bucket [where ul = id and s = "''Maths''" and d = "''Hard''" and r = "[]"
    and m = "''Focused''" and d' = "''Easy''" and r' = "''x''" and m' = "''Tired''"
    and sa = "''Maths''" and da = "''Hard''" and ra = "[]" and ma = "''Focused''"
    and sb = "''Maths''" and db = "''Hard''" and rb = "[]" and mb = "''Focused''"
    and sc = "''Maths''" and dc = "''Hard''" and rc = "[]" and mc = "''Focused''"
    and ta = 15 and tb = 60 and tc = 200]
  have 1: "length (today_tasks (build_plan_local id ''Maths'' ''Hard'' [] ''Focused'' 15)) = 2"
    using w [of 15 29, simplified] by blast
  have 2: "length (today_tasks (build_plan_local id ''Maths'' ''Hard'' [] ''Focused'' 60)) = 3"
    using w [of 60 60, simplified] by blast
  have 3: "length (today_tasks (build_plan_local id ''Maths'' ''Hard'' [] ''Focused'' 200)) = 3"
    using w [of 200 200, simplified] by blast
  have 4: "today_tasks (build_plan_local id ''Maths'' ''Hard'' [] ''Focused'' 15) =
     today_tasks (build_plan_local id ''Maths'' ''Easy'' ''x'' ''Tired'' 29)"
    using w [of 15 29, simplified] by blast
  have 5: "today_tasks (build_plan_local id ''Maths'' ''Hard'' [] ''Focused'' 15) \<noteq>
       today_tasks (build_plan_local id ''Maths'' ''Hard'' [] ''Focused'' 60) \<and>
     today_tasks (build_plan_local id ''Maths'' ''Hard'' [] ''Focused'' 15) \<noteq>
       today_tasks (build_plan_local id ''Maths'' ''Hard'' [] ''Focused'' 200) \<and>
     today_tasks (build_plan_local id ''Maths'' ''Hard'' [] ''Focused'' 60) \<noteq>
       today_tasks (build_plan_local id ''Maths'' ''Hard'' [] ''Focused'' 200)"
    using w [of 15 29, simplified] by blast
  from 1 2 3 4 5 show ?thesis by blast
qed

text \<open>
  C8. For every input the weekly plan is the same list of seven entries, with the days
  Mon, Tue, Wed, Thu, Fri, Sat, Sun in this order; no argument has any influence on it.
\<close>

theorem weekly_plan_constant:
  "weekly_plan (build_plan_local ul s d r m t) =
     [\<lparr>day = ''Mon'', focus = ''Core concept + 1 guided problem''\<rparr>,
      \<lparr>day = ''Tue'', focus = ''Flashcards & active recall''\<rparr>,
      \<lparr>day = ''Wed'', focus = ''Problem solving + explain out loud''\<rparr>,
      \<lparr>day = ''Thu'', focus = ''Timed practice + error review''\<rparr>,
      \<lparr>day = ''Fri'', focus = ''Mock/test-style practice''\<rparr>,
      \<lparr>day = ''Sat'', focus = ''Revise weak spots''\<rparr>,
      \<lparr>day = ''Sun'', focus = ''Rest + light overview''\<rparr>] \<and>
   length (weekly_plan (build_plan_local ul s d r m t)) = 7 \<and>
   map day (weekly_plan (build_plan_local ul s d r m t)) =
     [''Mon'', ''Tue'', ''Wed'', ''Thu'', ''Fri'', ''Sat'', ''Sun''] \<and>
   weekly_plan (build_plan_local ul s d r m t) = weekly_plan (build_plan_local ul s' d' r' m' t')"
  by (simp add: build_plan_local_def Let_def)

section \<open>Properties of gemini_enrich\<close>

lemma try_except_returns: "\<exists>v. try_except body (Inr d) = Inr v"
  by (cases body) (simp_all add: try_except_def)

text \<open>
  C9. For every prompt, \<open>gemini_enrich\<close> returns and never raises. It returns \<open>None\<close> when
  the client is not available or the key is \<open>None\<close> or empty, and it returns \<open>None\<close>
  whenever the external call raises, whatever the exception, or the response cannot be
  turned into text.
\<close>

theorem gemini_enrich_never_raises:
  "(\<exists>res. gemini_enrich cfg generate_text prompt_extra = Inr res) \<and>
   (\<not> GOOGLE_GENAI_AVAILABLE cfg \<or> \<not> truthy (GEMINI_API_KEY cfg) \<longrightarrow>
      gemini_enrich cfg generate_text prompt_extra = Inr None) \<and>
   (\<forall>e. generate_text ''models/text-bison-001'' (enrich_prompt prompt_extra) = Inl e \<longrightarrow>
      gemini_enrich cfg generate_text prompt_extra = Inr None) \<and>
   (\<forall>resp e. generate_text ''models/text-bison-001'' (enrich_prompt prompt_extra) = Inr resp \<and>
      \<not> truthy (resp_text resp) \<and> resp_str resp = Inl e \<longrightarrow>
      gemini_enrich cfg generate_text prompt_extra = Inr None)"
proof -
  have 1: "\<exists>res. gemini_enrich cfg generate_text prompt_extra = Inr res"
    by (simp add: gemini_enrich_def try_except_returns)
  have 2: "\<not> GOOGLE_GENAI_AVAILABLE cfg \<or> \<not> truthy (GEMINI_API_KEY cfg) \<longrightarrow>
      gemini_enrich cfg generate_text prompt_extra = Inr None"
    by (simp add: gemini_enrich_def)
  have 3: "\<forall>e. generate_text ''models/text-bison-001'' (enrich_prompt prompt_extra) = Inl e \<longrightarrow>
      gemini_enrich cfg generate_text prompt_extra = Inr None"
    by (auto simp add: gemini_enrich_def try_except_def)
  have 4: "\<forall>resp e. generate_text ''models/text-bison-001'' (enrich_prompt prompt_extra) = Inr resp \<and>
      \<not> truthy (resp_text resp) \<and> resp_str resp = Inl e \<longrightarrow>
      gemini_enrich cfg generate_text prompt_extra = Inr None"
    by (auto simp add: gemini_enrich_def try_except_def)
  from 1 2 3 4 show ?thesis by blast
qed

theorem gemini_enrich_never_raises_witness:
  "gemini_enrich \<lparr>GOOGLE_GENAI_AVAILABLE = True, GEMINI_API_KEY = None\<rparr>
     (\<lambda>model prompt. Inr \<lparr>resp_text = Some ''Keep going.'', resp_str = Inr ''resp''\<rparr>)
     ''Subject: Maths'' = Inr None \<and>
   gemini_enrich \<lparr>GOOGLE_GENAI_AVAILABLE = True, GEMINI_API_KEY = Some ''key''\<rparr>
     (\<lambda>model prompt. Inl (OtherError ''connection refused''))
     ''Subject: Maths'' = Inr None \<and>
   gemini_enrich \<lparr>GOOGLE_GENAI_AVAILABLE = True, GEMINI_API_KEY = Some ''key''\<rparr>
     (\<lambda>model prompt. Inr \<lparr>resp_text = None, resp_str = Inl (OtherError ''no text'')\<rparr>)
     ''Subject: Maths'' = Inr None"
proof -
  have a: "gemini_enrich \<lparr>GOOGLE_GENAI_AVAILABLE = True, GEMINI_API_KEY = None\<rparr>
     (\<lambda>model prompt. Inr \<lparr>resp_text = Some ''Keep going.'', resp_str = Inr ''resp''\<rparr>)
     ''Subject: Maths'' = Inr None"
    using gemini_enrich_never_raises [of "\<lparr>GOOGLE_GENAI_AVAILABLE = True, GEMINI_API_KEY = None\<rparr>"
      "\<lambda>model prompt. Inr \<lparr>resp_text = Some ''Keep going.'', resp_str = Inr ''resp''\<rparr>"
      "''Subject: Maths''"]
    by (simp add: truthy_def)
  have b: "gemini_enrich \<lparr>GOOGLE_GENAI_AVAILABLE = True, GEMINI_API_KEY = Some ''key''\<rparr>
     (\<lambda>model prompt. Inl (OtherError ''connection refused''))
     ''Subject: Maths'' = Inr None"
    using gemini_enrich_never_raises [of
      "\<lparr>GOOGLE_GENAI_AVAILABLE = True, GEMINI_API_KEY = Some ''key''\<rparr>"
      "\<lambda>model prompt. Inl (OtherError ''connection refused'')" "''Subject: Maths''"]
    by simp
  have c: "gemini_enrich \<lparr>GOOGLE_GENAI_AVAILABLE = True, GEMINI_API_KEY = Some ''key''\<rparr>
     (\<lambda>model prompt. Inr \<lparr>resp_text = None, resp_str = Inl (OtherError ''no text'')\<rparr>)
     ''Subject: Maths'' = Inr None"
    using gemini_enrich_never_raises [of
      "\<lparr>GOOGLE_GENAI_AVAILABLE = True, GEMINI_API_KEY = Some ''key''\<rparr>"
      "\<lambda>model prompt. Inr \<lparr>resp_text = None, resp_str = Inl (OtherError ''no text'')\<rparr>"
      "''Subject: Maths''"]
    by (simp add: truthy_def)
  from a b c show ?thesis by blast
qed

section \<open>Properties of the persistence helpers\<close>

lemma load_history_Doc: "load_history ReadOk (Some (Doc v)) = Inr v"
  by (simp add: load_history_def try_except_def read_json_def os_path_exists_def)

lemma load_history_Garbage: "load_history rd (Some Garbage) = Inr (JList [])"
  by (cases rd) (simp_all add: load_history_def try_except_def read_json_def os_path_exists_def)

lemma load_history_empty_Doc: "load_history rd (Some (Doc (JList []))) = Inr (JList [])"
  by (cases rd) (simp_all add: load_history_def try_except_def read_json_def os_path_exists_def)

text \<open>When the load gives a list, \<open>save_entry\<close> reaches its write and returns \<open>None\<close>.\<close>

lemma save_entry_list:
  "load_history rd fs = Inr (JList h) \<Longrightarrow>
   save_entry rd wr entry fs = (Inr (), snd (write_json wr (JList (h @ [entry])) fs))"
  by (cases wr) (simp_all add: save_entry_def list_append_def write_json_def)

text \<open>
  When the file holds JSON that is not an array, \<open>history.append\<close> raises before any
  write, outside the \<open>try\<close>: \<open>save_entry\<close> raises and the file is untouched.
\<close>

lemma save_entry_not_list:
  "load_history rd fs = Inr v \<Longrightarrow> (\<forall>h. v \<noteq> JList h) \<Longrightarrow>
   save_entry rd wr entry fs = (Inl AttributeError, fs)"
  by (cases v) (simp_all add: save_entry_def list_append_def)

text \<open>
  C5. \<open>load_history\<close> never raises: it always returns a value. It returns the empty list
  when the file is missing, when the read of the \<open>try\<close> block raises for whatever reason,
  in particular when the environment fails the read or the content is not JSON.
\<close>

theorem load_history_never_raises:
  "(\<exists>v. load_history rd fs = Inr v) \<and>
   (fs = None \<longrightarrow> load_history rd fs = Inr (JList [])) \<and>
   (\<forall>e. read_json rd fs = Inl e \<longrightarrow> load_history rd fs = Inr (JList [])) \<and>
   (\<forall>c. rd = ReadFails \<and> fs = Some c \<longrightarrow> load_history rd fs = Inr (JList [])) \<and>
   (fs = Some Garbage \<longrightarrow> load_history rd fs = Inr (JList []))"
proof -
  have 1: "\<exists>v. load_history rd fs = Inr v"
    using try_except_returns [of "read_json rd fs" "JList []"] by (simp add: load_history_def)
  have 2: "fs = None \<longrightarrow> load_history rd fs = Inr (JList [])"
    by (simp add: load_history_def os_path_exists_def)
  have 3: "\<forall>e. read_json rd fs = Inl e \<longrightarrow> load_history rd fs = Inr (JList [])"
    by (auto simp add: load_history_def try_except_def)
  have 4: "\<forall>c. rd = ReadFails \<and> fs = Some c \<longrightarrow> load_history rd fs = Inr (JList [])"
    by (simp add: load_history_def try_except_def read_json_def os_path_exists_def)
  have 5: "fs = Some Garbage \<longrightarrow> load_history rd fs = Inr (JList [])"
    by (simp add: load_history_Garbage)
  from 1 2 3 4 5 show ?thesis by blast
qed

theorem load_history_never_raises_witness:
  "load_history ReadOk None = Inr (JList []) \<and>
   read_json ReadOk (Some Garbage) = Inl JSONDecodeError \<and>
   load_history ReadOk (Some Garbage) = Inr (JList []) \<and>
   load_history ReadFails (Some (Doc (JList [JStr ''first'']))) = Inr (JList [])"
proof -
  have a: "load_history ReadOk None = Inr (JList [])"
    using load_history_never_raises [of ReadOk None] by simp
  have b: "read_json ReadOk (Some Garbage) = Inl JSONDecodeError"
    by (simp add: read_json_def)
  have c: "load_history ReadOk (Some Garbage) = Inr (JList [])"
    using load_history_never_raises [of ReadOk "Some Garbage"] b by simp
  have d: "load_history ReadFails (Some (Doc (JList [JStr ''first'']))) = Inr (JList [])"
    using load_history_never_raises [of ReadFails "Some (Doc (JList [JStr ''first'']))"]
    by simp
  from a b c d show ?thesis by blast
qed

text \<open>
  C4 as stated fails: the claim has every earlier record kept whenever the write
  succeeds. \<open>save_entry\<close> takes its list from \<open>load_history\<close>, which answers a failed read
  with the empty list: with the file holding one record, a read that fails inside
  \<open>save_entry\<close> and a write that succeeds, the file afterwards holds the new record
  alone, and the earlier record is gone.
\<close>

theorem save_entry_failed_read_overwrites:
  "load_history ReadOk (Some (Doc (JList [JStr ''first'']))) = Inr (JList [JStr ''first'']) \<and>
   save_entry ReadFails WriteOk (JStr ''second'') (Some (Doc (JList [JStr ''first'']))) =
     (Inr (), Some (Doc (JList [JStr ''second'']))) \<and>
   load_history ReadOk
     (snd (save_entry ReadFails WriteOk (JStr ''second'') (Some (Doc (JList [JStr ''first'']))))) =
     Inr (JList [JStr ''second'']) \<and>
   load_history ReadOk
     (snd (save_entry ReadFails WriteOk (JStr ''second'') (Some (Doc (JList [JStr ''first'']))))) \<noteq>
     Inr (JList [JStr ''first'', JStr ''second''])"
  by (simp add: save_entry_def list_append_def write_json_def load_history_def try_except_def
      read_json_def os_path_exists_def)

text \<open>
  C4, amended. For every state of the file and every record: when \<open>load_history\<close>
  returns the list \<open>h\<close>, and neither the read inside \<open>save_entry\<close> nor the read of the
  \<open>load_history\<close> after it fails, and the write succeeds, then \<open>save_entry\<close> returns
  normally and \<open>load_history\<close> returns \<open>h\<close> with the record appended at its end. When the
  read inside \<open>save_entry\<close> fails and the write succeeds, the file holds the record alone.
  When the write of \<open>clear_history\<close> succeeds, it returns normally and \<open>load_history\<close>
  then returns the empty list.
\<close>

theorem history_round_trip:
  "(load_history ReadOk fs = Inr (JList h) \<longrightarrow>
      fst (save_entry ReadOk WriteOk entry fs) = Inr () \<and>
      load_history ReadOk (snd (save_entry ReadOk WriteOk entry fs)) = Inr (JList (h @ [entry]))) \<and>
   (fs \<noteq> None \<longrightarrow>
      fst (save_entry ReadFails WriteOk entry fs) = Inr () \<and>
      load_history ReadOk (snd (save_entry ReadFails WriteOk entry fs)) = Inr (JList [entry])) \<and>
   fst (clear_history WriteOk fs) = Inr () \<and>
   load_history rd (snd (clear_history WriteOk fs)) = Inr (JList [])"
proof -
  have 1: "load_history ReadOk fs = Inr (JList h) \<longrightarrow>
      fst (save_entry ReadOk WriteOk entry fs) = Inr () \<and>
      load_history ReadOk (snd (save_entry ReadOk WriteOk entry fs)) = Inr (JList (h @ [entry]))"
    by (simp add: save_entry_list load_history_Doc write_json_def)
  have "fs \<noteq> None \<longrightarrow> load_history ReadFails fs = Inr (JList [])"
    by (auto simp add: load_history_def try_except_def read_json_def os_path_exists_def)
  then have 2: "fs \<noteq> None \<longrightarrow>
      fst (save_entry ReadFails WriteOk entry fs) = Inr () \<and>
      load_history ReadOk (snd (save_entry ReadFails WriteOk entry fs)) = Inr (JList [entry])"
    by (simp add: save_entry_list load_history_Doc write_json_def)
  have 3: "fst (clear_history WriteOk fs) = Inr () \<and>
      load_history rd (snd (clear_history WriteOk fs)) = Inr (JList [])"
    by (simp add: load_history_empty_Doc write_json_def clear_history_def)
  from 1 2 3 show ?thesis by blast
qed

theorem history_round_trip_witness:
  "load_history ReadOk (snd (save_entry ReadOk WriteOk (JStr ''second'')
     (Some (Doc (JList [JStr ''first''])))))
     = Inr (JList [JStr ''first'', JStr ''second'']) \<and>
   load_history ReadOk (snd (save_entry ReadOk WriteOk (JStr ''second'') None))
     = Inr (JList [JStr ''second'']) \<and>
   load_history ReadOk (snd (save_entry ReadFails WriteOk (JStr ''second'')
     (Some (Doc (JList [JStr ''first''])))))
     = Inr (JList [JStr ''second'']) \<and>
   load_history ReadOk (snd (clear_history WriteOk (Some (Doc (JList [JStr ''first'']))))) =
     Inr (JList [])"
proof -
  have a: "load_history ReadOk (Some (Doc (JList [JStr ''first'']))) =
      Inr (JList [JStr ''first''])"
    by (rule load_history_Doc)
  have b: "load_history ReadOk None = Inr (JList [])"
    by (simp add: load_history_def os_path_exists_def)
  note w = history_round_trip [where entry = "JStr ''second''" and rd = ReadOk]
  have 1: "load_history ReadOk (snd (save_entry ReadOk WriteOk (JStr ''second'')
     (Some (Doc (JList [JStr ''first''])))))
     = Inr (JList [JStr ''first'', JStr ''second''])"
    using w [where fs = "Some (Doc (JList [JStr ''first'']))" and h = "[JStr ''first'']"] a
    by simp
  have 2: "load_history ReadOk (snd (save_entry ReadOk WriteOk (JStr ''second'') None))
     = Inr (JList [JStr ''second''])"
    using w [where fs = None and h = "[]"] b
    by simp
  have 3: "load_history ReadOk (snd (save_entry ReadFails WriteOk (JStr ''second'')
     (Some (Doc (JList [JStr ''first''])))))
     = Inr (JList [JStr ''second''])"
    using w [where fs = "Some (Doc (JList [JStr ''first'']))" and h = "[JStr ''first'']"]
    by simp
  have 4: "load_history ReadOk (snd (clear_history WriteOk
      (Some (Doc (JList [JStr ''first'']))))) = Inr (JList [])"
    using w [where fs = "Some (Doc (JList [JStr ''first'']))" and h = "[JStr ''first'']"]
    by simp
  from 1 2 3 4 show ?thesis by blast
qed

text \<open>
  C2 as stated fails: the claim has a failed write leave the persisted sequence as it
  was. With the file holding one record and a write that fails after \<open>open\<close>, \<open>save_entry\<close>
  returns normally, but \<open>open\<close> has truncated the file: it no longer holds what it held,
  and \<open>load_history\<close>, which gave the one record before, now gives the empty list.
\<close>

theorem save_entry_failed_dump_loses_history:
  "fst (save_entry ReadOk DumpFails (JStr ''second'') (Some (Doc (JList [JStr ''first''])))) =
     Inr () \<and>
   snd (save_entry ReadOk DumpFails (JStr ''second'') (Some (Doc (JList [JStr ''first''])))) \<noteq>
     Some (Doc (JList [JStr ''first''])) \<and>
   load_history ReadOk (Some (Doc (JList [JStr ''first'']))) = Inr (JList [JStr ''first'']) \<and>
   load_history ReadOk
     (snd (save_entry ReadOk DumpFails (JStr ''second'') (Some (Doc (JList [JStr ''first''])))))
     = Inr (JList [])"
  by (simp add: save_entry_def list_append_def write_json_def load_history_def try_except_def
      read_json_def os_path_exists_def)

text \<open>
  C2, amended. For every record and every state of the file in which \<open>save_entry\<close>
  reaches its write: if the write fails, \<open>save_entry\<close> returns normally, no error reaching
  the caller. If the failure is in opening the file, the file is unchanged. If it comes
  after the file was opened, the file is left truncated, and \<open>load_history\<close> then returns
  the empty list.
\<close>

theorem save_entry_write_failure:
  "load_history rd fs = Inr (JList h) \<and> wr \<noteq> WriteOk \<longrightarrow>
     fst (save_entry rd wr entry fs) = Inr () \<and>
     (wr = OpenFails \<longrightarrow> snd (save_entry rd wr entry fs) = fs) \<and>
     (wr = DumpFails \<longrightarrow> snd (save_entry rd wr entry fs) = Some Garbage \<and>
        load_history rd' (snd (save_entry rd wr entry fs)) = Inr (JList []))"
  by (cases wr) (simp_all add: save_entry_list write_json_def load_history_Garbage)

theorem save_entry_write_failure_witness:
  "save_entry ReadOk OpenFails (JStr ''second'') (Some (Doc (JList [JStr ''first'']))) =
     (Inr (), Some (Doc (JList [JStr ''first'']))) \<and>
   save_entry ReadOk DumpFails (JStr ''second'') (Some (Doc (JList [JStr ''first'']))) =
     (Inr (), Some Garbage)"
proof -
  have a: "load_history ReadOk (Some (Doc (JList [JStr ''first'']))) =
      Inr (JList [JStr ''first''])"
    by (rule load_history_Doc)
  have 1: "save_entry ReadOk OpenFails (JStr ''second'') (Some (Doc (JList [JStr ''first'']))) =
     (Inr (), Some (Doc (JList [JStr ''first''])))"
    using save_entry_write_failure [of ReadOk "Some (Doc (JList [JStr ''first'']))"
        "[JStr ''first'']" OpenFails "JStr ''second''" ReadOk] a
    by (simp add: prod_eq_iff)
  have 2: "save_entry ReadOk DumpFails (JStr ''second'') (Some (Doc (JList [JStr ''first'']))) =
     (Inr (), Some Garbage)"
    using save_entry_write_failure [of ReadOk "Some (Doc (JList [JStr ''first'']))"
        "[JStr ''first'']" DumpFails "JStr ''second''" ReadOk] a
    by (simp add: prod_eq_iff)
  from 1 2 show ?thesis by blast
qed

end
